theory Spec2Isabelle
  imports Complex_Main
begin

section \<open>Hours-of-Service rules engine (trips/hos\_rules.py)\<close>

text \<open>
  Python floats are read as real numbers: hours and miles are \<^typ>\<open>real\<close>, and the
  arithmetic of the source is the arithmetic of the reals (no rounding of the binary
  representation is modelled).
\<close>

definition MAX_DRIVING_HOURS :: real where "MAX_DRIVING_HOURS = 11"
definition MAX_DUTY_WINDOW_HOURS :: real where "MAX_DUTY_WINDOW_HOURS = 14"
definition BREAK_REQUIRED_AFTER_HOURS :: real where "BREAK_REQUIRED_AFTER_HOURS = 8"
definition BREAK_DURATION_MINUTES :: int where "BREAK_DURATION_MINUTES = 30"
definition OFF_DUTY_RESET_HOURS :: real where "OFF_DUTY_RESET_HOURS = 10"
definition CYCLE_LIMIT_HOURS :: real where "CYCLE_LIMIT_HOURS = 70"
definition FUEL_STOP_INTERVAL_MILES :: real where "FUEL_STOP_INTERVAL_MILES = 1000"
definition FUEL_STOP_DURATION_MINUTES :: int where "FUEL_STOP_DURATION_MINUTES = 30"
definition PICKUP_DURATION_MINUTES :: int where "PICKUP_DURATION_MINUTES = 60"
definition DROPOFF_DURATION_MINUTES :: int where "DROPOFF_DURATION_MINUTES = 60"
definition AVG_SPEED_MPH :: real where "AVG_SPEED_MPH = 55"

lemmas hos_consts =
  MAX_DRIVING_HOURS_def MAX_DUTY_WINDOW_HOURS_def BREAK_REQUIRED_AFTER_HOURS_def
  BREAK_DURATION_MINUTES_def OFF_DUTY_RESET_HOURS_def CYCLE_LIMIT_HOURS_def
  FUEL_STOP_INTERVAL_MILES_def FUEL_STOP_DURATION_MINUTES_def PICKUP_DURATION_MINUTES_def
  DROPOFF_DURATION_MINUTES_def AVG_SPEED_MPH_def

record HOSState =
  driving_hours_in_shift :: real
  on_duty_hours_in_shift :: real
  duty_window_hours :: real
  driving_since_last_break :: real
  cycle_hours_used :: real
  shift_active :: bool

definition driving_hours_remaining :: "HOSState \<Rightarrow> real" where
  "driving_hours_remaining s = max 0 (MAX_DRIVING_HOURS - driving_hours_in_shift s)"

definition duty_window_remaining :: "HOSState \<Rightarrow> real" where
  "duty_window_remaining s = max 0 (MAX_DUTY_WINDOW_HOURS - duty_window_hours s)"

definition cycle_hours_remaining :: "HOSState \<Rightarrow> real" where
  "cycle_hours_remaining s = max 0 (CYCLE_LIMIT_HOURS - cycle_hours_used s)"

definition hours_until_break_required :: "HOSState \<Rightarrow> real" where
  "hours_until_break_required s = max 0 (BREAK_REQUIRED_AFTER_HOURS - driving_since_last_break s)"

definition needs_30_min_break :: "HOSState \<Rightarrow> bool" where
  "needs_30_min_break s \<longleftrightarrow> driving_since_last_break s \<ge> BREAK_REQUIRED_AFTER_HOURS"

definition can_drive :: "HOSState \<Rightarrow> bool" where
  "can_drive s \<longleftrightarrow>
     driving_hours_remaining s > 0 \<and> duty_window_remaining s > 0 \<and>
     cycle_hours_remaining s > 0 \<and> \<not> needs_30_min_break s"

text \<open>
  Python's \<open>min\<close> of one value and the values after it, left to right. Both calls in
  the source pass at least one value (a list literal of four limits, and three arguments),
  so the first is an argument of its own and the empty case does not arise.
\<close>

fun py_min :: "real \<Rightarrow> real list \<Rightarrow> real" where
  "py_min x [] = x"
| "py_min x (y # ys) = py_min (min x y) ys"

definition get_max_continuous_driving_hours :: "HOSState \<Rightarrow> real" where
  "get_max_continuous_driving_hours s =
     max 0 (py_min (driving_hours_remaining s)
              [duty_window_remaining s, cycle_hours_remaining s, hours_until_break_required s])"

definition start_new_shift :: "HOSState \<Rightarrow> HOSState" where
  "start_new_shift state =
     \<lparr>driving_hours_in_shift = 0, on_duty_hours_in_shift = 0, duty_window_hours = 0,
      driving_since_last_break = 0, cycle_hours_used = cycle_hours_used state,
      shift_active = True\<rparr>"

definition add_driving_time :: "HOSState \<Rightarrow> real \<Rightarrow> HOSState" where
  "add_driving_time state0 hours =
     (let state = (if \<not> shift_active state0 then start_new_shift state0 else state0)
      in \<lparr>driving_hours_in_shift = driving_hours_in_shift state + hours,
          on_duty_hours_in_shift = on_duty_hours_in_shift state + hours,
          duty_window_hours = duty_window_hours state + hours,
          driving_since_last_break = driving_since_last_break state + hours,
          cycle_hours_used = cycle_hours_used state + hours,
          shift_active = True\<rparr>)"

definition add_on_duty_time :: "HOSState \<Rightarrow> real \<Rightarrow> bool \<Rightarrow> HOSState" where
  "add_on_duty_time state0 hours counts_as_break =
     (let state = (if \<not> shift_active state0 then start_new_shift state0 else state0);
          new_driving_since_break =
            (if counts_as_break \<and> hours \<ge> real_of_int BREAK_DURATION_MINUTES / 60
             then 0 else driving_since_last_break state)
      in \<lparr>driving_hours_in_shift = driving_hours_in_shift state,
          on_duty_hours_in_shift = on_duty_hours_in_shift state + hours,
          duty_window_hours = duty_window_hours state + hours,
          driving_since_last_break = new_driving_since_break,
          cycle_hours_used = cycle_hours_used state + hours,
          shift_active = True\<rparr>)"

definition add_off_duty_time :: "HOSState \<Rightarrow> real \<Rightarrow> HOSState" where
  "add_off_duty_time state hours =
     (if hours \<ge> OFF_DUTY_RESET_HOURS then
        \<lparr>driving_hours_in_shift = 0, on_duty_hours_in_shift = 0, duty_window_hours = 0,
         driving_since_last_break = 0, cycle_hours_used = cycle_hours_used state,
         shift_active = False\<rparr>
      else
        \<lparr>driving_hours_in_shift = driving_hours_in_shift state,
         on_duty_hours_in_shift = on_duty_hours_in_shift state,
         duty_window_hours = duty_window_hours state + hours,
         driving_since_last_break = 0,
         cycle_hours_used = cycle_hours_used state,
         shift_active = shift_active state\<rparr>)"

section \<open>Dates, durations and number formatting (Python library)\<close>

text \<open>
  A naive \<open>datetime\<close> is a count of microseconds since the start of day 0 of the
  calendar, and a \<open>timedelta\<close> is a count of microseconds: that is the resolution of
  both Python types. The calendar's range limits (years 1 to 9999) are not modelled.
  \<open>timedelta(hours=h)\<close> with a fractional \<open>h\<close> rounds to the nearest microsecond,
  ties to even.
\<close>

type_synonym datetime = int
type_synonym timedelta = int

definition round_half_even :: "real \<Rightarrow> int" where
  "round_half_even x =
     (let f = \<lfloor>x\<rfloor>; r = x - of_int f
      in if r < 1/2 then f else if r > 1/2 then f + 1 else if even f then f else f + 1)"

definition US_PER_SECOND :: int where "US_PER_SECOND = 1000000"
definition US_PER_MINUTE :: int where "US_PER_MINUTE = 60000000"
definition US_PER_HOUR :: int where "US_PER_HOUR = 3600000000"
definition US_PER_DAY :: int where "US_PER_DAY = 86400000000"

lemmas us_consts = US_PER_SECOND_def US_PER_MINUTE_def US_PER_HOUR_def US_PER_DAY_def

definition timedelta_minutes :: "int \<Rightarrow> timedelta" where
  "timedelta_minutes m = m * US_PER_MINUTE"

definition timedelta_hours :: "real \<Rightarrow> timedelta" where
  "timedelta_hours h = round_half_even (h * of_int US_PER_HOUR)"

definition timedelta_days :: "int \<Rightarrow> timedelta" where
  "timedelta_days d = d * US_PER_DAY"

text \<open>Python's \<open>x % y\<close> on floats, for a positive \<open>y\<close>.\<close>

definition py_fmod :: "real \<Rightarrow> real \<Rightarrow> real" where
  "py_fmod x y = x - y * of_int \<lfloor>x / y\<rfloor>"

text \<open>Python's \<open>int(x)\<close> on a float truncates towards zero.\<close>

definition py_int :: "real \<Rightarrow> int" where
  "py_int x = (if x \<ge> 0 then \<lfloor>x\<rfloor> else \<lceil>x\<rceil>)"

function string_of_nat :: "nat \<Rightarrow> string" where
  "string_of_nat n =
     (if n < 10 then [''0123456789'' ! n]
      else string_of_nat (n div 10) @ [''0123456789'' ! (n mod 10)])"
  by pat_completeness auto
termination
  by (relation "measure (\<lambda>n. n)") auto

declare string_of_nat.simps [simp del]

text \<open>The last \<open>p\<close> decimal digits of \<open>n\<close>, zero-padded.\<close>

fun frac_digits :: "nat \<Rightarrow> nat \<Rightarrow> string" where
  "frac_digits 0 n = []"
| "frac_digits (Suc p) n = frac_digits p (n div 10) @ [''0123456789'' ! (n mod 10)]"

text \<open>The format specification \<open>{x:.pf}\<close>: \<open>p\<close> digits after the point, ties to even.\<close>

definition format_f :: "nat \<Rightarrow> real \<Rightarrow> string" where
  "format_f p x =
     (let n = nat (round_half_even (\<bar>x\<bar> * 10 ^ p))
      in (if x < 0 then ''-'' else []) @ string_of_nat (n div 10 ^ p) @
         (if p = 0 then [] else ''.'' @ frac_digits p n))"

section \<open>Route data (trips/routing.py)\<close>

record Location =
  lat :: real
  lng :: real
  address :: string

text \<open>
  \<open>RouteLeg.duration_minutes\<close> is named \<open>leg_duration_minutes\<close> here, since
  \<open>ScheduleEvent\<close> has a property of the same name. The waypoint dictionaries of
  \<open>RouteResult\<close> are never read by the scheduler and are left out.
\<close>

record RouteLeg =
  from_location :: string
  to_location :: string
  distance_miles :: real
  leg_duration_minutes :: real
  polyline :: string

record RouteResult =
  legs :: "RouteLeg list"
  total_distance_miles :: real
  total_duration_minutes :: real
  full_polyline :: string

section \<open>Trip scheduler (trips/scheduler.py)\<close>

datatype DutyStatus = OFF_DUTY | SLEEPER_BERTH | DRIVING | ON_DUTY_NOT_DRIVING

text \<open>\<open>StopType.OFF_DUTY\<close> is written \<open>OFF_DUTY_RESET\<close>: the name is taken by the duty status.\<close>

datatype StopType = PICKUP | DROPOFF | FUEL | REST_BREAK | OFF_DUTY_RESET

record ScheduleEvent =
  start_time :: datetime
  end_time :: datetime
  status :: DutyStatus
  "note" :: string
  location :: string
  miles_start :: real
  miles_end :: real

definition duration_hours :: "ScheduleEvent \<Rightarrow> real" where
  "duration_hours e = real_of_int (end_time e - start_time e) / real_of_int US_PER_HOUR"

definition duration_minutes :: "ScheduleEvent \<Rightarrow> real" where
  "duration_minutes e = real_of_int (end_time e - start_time e) / real_of_int US_PER_MINUTE"

text \<open>The fields of \<open>Stop\<close> that share a name with another record carry the prefix \<open>stop_\<close>.\<close>

record Stop =
  stop_type :: StopType
  stop_duration_minutes :: int
  stop_location :: string
  stop_lat :: "real option"
  stop_lng :: "real option"
  mile_marker :: "real option"
  reason :: string

record TripSchedule =
  events :: "ScheduleEvent list"
  stops :: "Stop list"
  total_driving_hours :: real
  total_on_duty_hours :: real
  total_off_duty_hours :: real
  total_miles :: real
  trip_start_time :: "datetime option"
  trip_end_time :: "datetime option"

datatype py_error = IndexError

text \<open>
  The stop helpers append to the schedule they are given and return the end time and the
  new HOS state; here they return the extended schedule as well.
\<close>

definition add_pickup_stop ::
  "TripSchedule \<Rightarrow> datetime \<Rightarrow> HOSState \<Rightarrow> real \<Rightarrow> Location \<Rightarrow> TripSchedule \<times> datetime \<times> HOSState" where
  "add_pickup_stop schedule current_time hos_state current_miles loc =
     (let duration_hours = real_of_int PICKUP_DURATION_MINUTES / 60;
          end_time = current_time + timedelta_minutes PICKUP_DURATION_MINUTES;
          ev = \<lparr>start_time = current_time, end_time = end_time, status = ON_DUTY_NOT_DRIVING,
                note = ''Pickup - Loading'',
                location = (if address loc \<noteq> [] then address loc
                            else format_f 4 (lat loc) @ '', '' @ format_f 4 (lng loc)),
                miles_start = current_miles, miles_end = current_miles\<rparr>;
          st = \<lparr>stop_type = PICKUP, stop_duration_minutes = PICKUP_DURATION_MINUTES,
                stop_location = address loc, stop_lat = Some (lat loc), stop_lng = Some (lng loc),
                mile_marker = Some current_miles, reason = ''Loading cargo''\<rparr>;
          hos_state' = add_on_duty_time hos_state duration_hours True
      in (schedule\<lparr>events := events schedule @ [ev], stops := stops schedule @ [st],
                    total_on_duty_hours := total_on_duty_hours schedule + duration_hours\<rparr>,
          end_time, hos_state'))"

definition add_dropoff_stop ::
  "TripSchedule \<Rightarrow> datetime \<Rightarrow> HOSState \<Rightarrow> real \<Rightarrow> Location \<Rightarrow> TripSchedule \<times> datetime \<times> HOSState" where
  "add_dropoff_stop schedule current_time hos_state current_miles loc =
     (let duration_hours = real_of_int DROPOFF_DURATION_MINUTES / 60;
          end_time = current_time + timedelta_minutes DROPOFF_DURATION_MINUTES;
          ev = \<lparr>start_time = current_time, end_time = end_time, status = ON_DUTY_NOT_DRIVING,
                note = ''Dropoff - Unloading'',
                location = (if address loc \<noteq> [] then address loc
                            else format_f 4 (lat loc) @ '', '' @ format_f 4 (lng loc)),
                miles_start = current_miles, miles_end = current_miles\<rparr>;
          st = \<lparr>stop_type = DROPOFF, stop_duration_minutes = DROPOFF_DURATION_MINUTES,
                stop_location = address loc, stop_lat = Some (lat loc), stop_lng = Some (lng loc),
                mile_marker = Some current_miles, reason = ''Unloading cargo''\<rparr>;
          hos_state' = add_on_duty_time hos_state duration_hours True
      in (schedule\<lparr>events := events schedule @ [ev], stops := stops schedule @ [st],
                    total_on_duty_hours := total_on_duty_hours schedule + duration_hours\<rparr>,
          end_time, hos_state'))"

definition add_fuel_stop ::
  "TripSchedule \<Rightarrow> datetime \<Rightarrow> HOSState \<Rightarrow> real \<Rightarrow> string \<Rightarrow> TripSchedule \<times> datetime \<times> HOSState" where
  "add_fuel_stop schedule current_time hos_state current_miles location_note =
     (let duration_hours = real_of_int FUEL_STOP_DURATION_MINUTES / 60;
          end_time = current_time + timedelta_minutes FUEL_STOP_DURATION_MINUTES;
          ev = \<lparr>start_time = current_time, end_time = end_time, status = ON_DUTY_NOT_DRIVING,
                note = ''Fuel Stop'', location = location_note,
                miles_start = current_miles, miles_end = current_miles\<rparr>;
          st = \<lparr>stop_type = FUEL, stop_duration_minutes = FUEL_STOP_DURATION_MINUTES,
                stop_location = location_note, stop_lat = None, stop_lng = None,
                mile_marker = Some current_miles, reason = ''Refueling''\<rparr>;
          hos_state' = add_on_duty_time hos_state duration_hours True
      in (schedule\<lparr>events := events schedule @ [ev], stops := stops schedule @ [st],
                    total_on_duty_hours := total_on_duty_hours schedule + duration_hours\<rparr>,
          end_time, hos_state'))"

definition add_rest_break ::
  "TripSchedule \<Rightarrow> datetime \<Rightarrow> HOSState \<Rightarrow> real \<Rightarrow> string \<Rightarrow> TripSchedule \<times> datetime \<times> HOSState" where
  "add_rest_break schedule current_time hos_state current_miles location_note =
     (let duration_hours = real_of_int BREAK_DURATION_MINUTES / 60;
          end_time = current_time + timedelta_minutes BREAK_DURATION_MINUTES;
          ev = \<lparr>start_time = current_time, end_time = end_time, status = OFF_DUTY,
                note = ''30-min Rest Break (8hr rule)'', location = location_note,
                miles_start = current_miles, miles_end = current_miles\<rparr>;
          st = \<lparr>stop_type = REST_BREAK, stop_duration_minutes = BREAK_DURATION_MINUTES,
                stop_location = location_note, stop_lat = None, stop_lng = None,
                mile_marker = Some current_miles,
                reason = ''Required 30-minute break after 8 hours driving''\<rparr>;
          hos_state' = add_off_duty_time hos_state duration_hours
      in (schedule\<lparr>events := events schedule @ [ev], stops := stops schedule @ [st],
                    total_off_duty_hours := total_off_duty_hours schedule + duration_hours\<rparr>,
          end_time, hos_state'))"

definition add_off_duty_reset ::
  "TripSchedule \<Rightarrow> datetime \<Rightarrow> HOSState \<Rightarrow> real \<Rightarrow> string \<Rightarrow> TripSchedule \<times> datetime \<times> HOSState" where
  "add_off_duty_reset schedule current_time hos_state current_miles location_note =
     (let duration_hours = OFF_DUTY_RESET_HOURS;
          end_time = current_time + timedelta_hours duration_hours;
          ev = \<lparr>start_time = current_time, end_time = end_time, status = OFF_DUTY,
                note = ''10-hr Off Duty (Shift Reset)'', location = location_note,
                miles_start = current_miles, miles_end = current_miles\<rparr>;
          st = \<lparr>stop_type = OFF_DUTY_RESET, stop_duration_minutes = py_int (duration_hours * 60),
                stop_location = location_note, stop_lat = None, stop_lng = None,
                mile_marker = Some current_miles,
                reason = ''Required 10-hour off-duty period to reset driving limits''\<rparr>;
          hos_state' = add_off_duty_time hos_state duration_hours
      in (schedule\<lparr>events := events schedule @ [ev], stops := stops schedule @ [st],
                    total_off_duty_hours := total_off_duty_hours schedule + duration_hours\<rparr>,
          end_time, hos_state'))"

text \<open>The local variables of \<open>create_trip_schedule\<close> that the drive loop reads and writes.\<close>

record loop_vars =
  schedule :: TripSchedule
  current_time :: datetime
  hos_state :: HOSState
  current_miles :: real
  miles_to_drive :: real
  leg_miles_driven :: real

text \<open>Calling a stop helper and assigning its results back to the local variables.\<close>

definition assign_stop :: "loop_vars \<Rightarrow> TripSchedule \<times> datetime \<times> HOSState \<Rightarrow> loop_vars" where
  "assign_stop v r =
     (case r of (sch, t, h) \<Rightarrow> v\<lparr>schedule := sch, current_time := t, hos_state := h\<rparr>)"

definition near_mile :: "real \<Rightarrow> string" where
  "near_mile m = ''Near mile '' @ format_f 0 m"

text \<open>Lines 171 to 192: no mileage can be driven, so one compliance stop is inserted.\<close>

definition cannot_drive :: "loop_vars \<Rightarrow> loop_vars" where
  "cannot_drive v =
     (if needs_30_min_break (hos_state v) then
        assign_stop v (add_rest_break (schedule v) (current_time v) (hos_state v)
                         (current_miles v) (near_mile (current_miles v)))
      else if duty_window_remaining (hos_state v) \<le> 0 \<or> driving_hours_remaining (hos_state v) \<le> 0 then
        assign_stop v (add_off_duty_reset (schedule v) (current_time v) (hos_state v)
                         (current_miles v) (near_mile (current_miles v)))
      else if cycle_hours_remaining (hos_state v) \<le> 0 then
        assign_stop v (add_off_duty_reset (schedule v) (current_time v) (hos_state v)
                         (current_miles v) (near_mile (current_miles v) @ '' (cycle limit)''))
      else v)"

text \<open>Lines 194 to 216: the driving event and the update of the local variables.\<close>

definition drive_segment :: "string \<Rightarrow> real \<Rightarrow> loop_vars \<Rightarrow> loop_vars" where
  "drive_segment end_name miles_this_segment v =
     (let driving_hours = miles_this_segment / AVG_SPEED_MPH;
          end_time = current_time v + timedelta_hours driving_hours;
          ev = \<lparr>start_time = current_time v, end_time = end_time, status = DRIVING,
                note = ''Driving to '' @ end_name,
                location = ''Mile '' @ format_f 0 (current_miles v) @ '' - '' @
                           format_f 0 (current_miles v + miles_this_segment),
                miles_start = current_miles v,
                miles_end = current_miles v + miles_this_segment\<rparr>;
          sch = schedule v
      in v\<lparr>schedule := sch\<lparr>events := events sch @ [ev],
                             total_driving_hours := total_driving_hours sch + driving_hours,
                             total_on_duty_hours := total_on_duty_hours sch + driving_hours\<rparr>,
           hos_state := add_driving_time (hos_state v) driving_hours,
           current_time := end_time,
           current_miles := current_miles v + miles_this_segment,
           miles_to_drive := miles_to_drive v - miles_this_segment,
           leg_miles_driven := leg_miles_driven v + miles_this_segment\<rparr>)"

text \<open>Lines 218 to 237: the three checks that follow a driving segment, in order.\<close>

definition check_fuel_stop :: "real \<Rightarrow> loop_vars \<Rightarrow> loop_vars" where
  "check_fuel_stop miles_this_segment v =
     (if py_fmod (current_miles v) FUEL_STOP_INTERVAL_MILES < miles_this_segment
         \<and> miles_to_drive v > 0 then
        assign_stop v (add_fuel_stop (schedule v) (current_time v) (hos_state v) (current_miles v)
                         (''Fuel stop at mile '' @ format_f 0 (current_miles v)))
      else v)"

definition check_rest_break :: "loop_vars \<Rightarrow> loop_vars" where
  "check_rest_break v =
     (if needs_30_min_break (hos_state v) \<and> miles_to_drive v > 0 then
        assign_stop v (add_rest_break (schedule v) (current_time v) (hos_state v) (current_miles v)
                         (near_mile (current_miles v)))
      else v)"

definition check_reset :: "loop_vars \<Rightarrow> loop_vars" where
  "check_reset v =
     (if (duty_window_remaining (hos_state v) \<le> 0 \<or> driving_hours_remaining (hos_state v) \<le> 0)
         \<and> miles_to_drive v > 0 then
        assign_stop v (add_off_duty_reset (schedule v) (current_time v) (hos_state v)
                         (current_miles v) (near_mile (current_miles v)))
      else v)"

text \<open>The segment length chosen at lines 157 to 169.\<close>

definition segment_miles :: "loop_vars \<Rightarrow> real" where
  "segment_miles v =
     (let miles_since_last_fuel = py_fmod (current_miles v) FUEL_STOP_INTERVAL_MILES;
          miles_to_next_fuel0 = FUEL_STOP_INTERVAL_MILES - miles_since_last_fuel;
          miles_to_next_fuel =
            (if miles_to_next_fuel0 \<le> 0 then FUEL_STOP_INTERVAL_MILES else miles_to_next_fuel0);
          max_driving_hours = get_max_continuous_driving_hours (hos_state v);
          max_miles_hos = max_driving_hours * AVG_SPEED_MPH
      in py_min (miles_to_drive v) [max_miles_hos, miles_to_next_fuel])"

text \<open>One pass through the body of the \<open>while miles_to_drive > 0\<close> loop.\<close>

definition drive_iter :: "string \<Rightarrow> loop_vars \<Rightarrow> loop_vars" where
  "drive_iter end_name v =
     (let miles_this_segment = segment_miles v
      in if miles_this_segment \<le> 0 then cannot_drive v
         else check_reset (check_rest_break (check_fuel_stop miles_this_segment
                (drive_segment end_name miles_this_segment v))))"

text \<open>The loop itself. It need not terminate: \<open>None\<close> is the run that never leaves it.\<close>

partial_function (option) drive_loop :: "string \<Rightarrow> loop_vars \<Rightarrow> loop_vars option" where
  "drive_loop end_name v =
     (if miles_to_drive v > 0 then drive_loop end_name (drive_iter end_name v) else Some v)"

declare drive_loop.simps [code]

record leg_data =
  leg :: RouteLeg
  start_location :: Location
  end_location :: Location
  end_type :: StopType
  end_name :: string

text \<open>The body of the \<open>for\<close> loop over the legs, and the loop.\<close>

definition process_leg :: "Location \<Rightarrow> Location \<Rightarrow> leg_data \<Rightarrow> loop_vars \<Rightarrow> loop_vars option" where
  "process_leg pickup_location dropoff_location ld v =
     (case drive_loop (end_name ld)
             (v\<lparr>miles_to_drive := distance_miles (leg ld), leg_miles_driven := 0\<rparr>) of
        None \<Rightarrow> None
      | Some v' \<Rightarrow>
          Some (if end_type ld = PICKUP then
                  assign_stop v' (add_pickup_stop (schedule v') (current_time v') (hos_state v')
                                    (current_miles v') pickup_location)
                else
                  assign_stop v' (add_dropoff_stop (schedule v') (current_time v') (hos_state v')
                                    (current_miles v') dropoff_location)))"

fun process_legs :: "Location \<Rightarrow> Location \<Rightarrow> leg_data list \<Rightarrow> loop_vars \<Rightarrow> loop_vars option" where
  "process_legs pickup_location dropoff_location [] v = Some v"
| "process_legs pickup_location dropoff_location (ld # lds) v =
     (case process_leg pickup_location dropoff_location ld v of
        None \<Rightarrow> None
      | Some v' \<Rightarrow> process_legs pickup_location dropoff_location lds v')"

text \<open>
  \<open>create_trip_schedule\<close>. The clock read by \<open>datetime.now()\<close> is the argument \<open>now\<close>.
  The result is \<open>None\<close> when the call never returns, \<open>Some (Inl e)\<close> when it raises
  \<open>e\<close> and \<open>Some (Inr schedule)\<close> when it returns \<open>schedule\<close>.
\<close>

definition create_trip_schedule ::
  "RouteResult \<Rightarrow> Location \<Rightarrow> Location \<Rightarrow> Location \<Rightarrow> real \<Rightarrow> datetime option \<Rightarrow> datetime
   \<Rightarrow> (py_error + TripSchedule) option" where
  "create_trip_schedule route current_location pickup_location dropoff_location
     cycle_used_hours start_time_arg now =
     (let start_time = (case start_time_arg of
                          None \<Rightarrow> (now div US_PER_HOUR) * US_PER_HOUR + timedelta_hours 1
                        | Some t \<Rightarrow> t);
          schedule0 = \<lparr>events = [], stops = [], total_driving_hours = 0, total_on_duty_hours = 0,
                       total_off_duty_hours = 0, total_miles = 0,
                       trip_start_time = Some start_time, trip_end_time = None\<rparr>;
          hos_state0 = \<lparr>driving_hours_in_shift = 0, on_duty_hours_in_shift = 0,
                        duty_window_hours = 0, driving_since_last_break = 0,
                        cycle_hours_used = cycle_used_hours, shift_active = False\<rparr>;
          v0 = \<lparr>schedule = schedule0, current_time = start_time,
                hos_state = start_new_shift hos_state0, current_miles = 0,
                miles_to_drive = 0, leg_miles_driven = 0\<rparr>
      in if length (legs route) < 2 then Some (Inl IndexError)
         else
           (let legs_data =
                  [\<lparr>leg = legs route ! 0, start_location = current_location,
                     end_location = pickup_location, end_type = PICKUP, end_name = ''Pickup''\<rparr>,
                   \<lparr>leg = legs route ! 1, start_location = pickup_location,
                     end_location = dropoff_location, end_type = DROPOFF, end_name = ''Dropoff''\<rparr>]
            in case process_legs pickup_location dropoff_location legs_data v0 of
                 None \<Rightarrow> None
               | Some v \<Rightarrow>
                   Some (Inr ((schedule v)\<lparr>total_miles := current_miles v,
                                            trip_end_time := Some (current_time v)\<rparr>))))"

subsection \<open>Day segmentation and daily totals\<close>

text \<open>
  \<open>strftime("%Y-%m-%d")\<close> names the calendar day of a time; the day number stands for
  that string. \<open>replace(hour, minute, second)\<close> keeps the day and the microsecond field.
  The dictionary \<open>by_day\<close> is a list of keys with their events, in insertion order.
\<close>

definition day_key :: "datetime \<Rightarrow> int" where
  "day_key t = t div US_PER_DAY"

definition replace_hms :: "datetime \<Rightarrow> int \<Rightarrow> int \<Rightarrow> int \<Rightarrow> datetime" where
  "replace_hms t h m s =
     (t div US_PER_DAY) * US_PER_DAY + (h * 3600 + m * 60 + s) * US_PER_SECOND
       + t mod US_PER_SECOND"

fun dict_append :: "int \<Rightarrow> ScheduleEvent \<Rightarrow> (int \<times> ScheduleEvent list) list
                    \<Rightarrow> (int \<times> ScheduleEvent list) list" where
  "dict_append k e [] = [(k, [e])]"
| "dict_append k e ((k', es) # rest) =
     (if k' = k then (k', es @ [e]) # rest else (k', es) # dict_append k e rest)"

text \<open>The inner \<open>while current_start < event_end\<close> loop of \<open>get_schedule_by_day\<close>.\<close>

function split_event :: "ScheduleEvent \<Rightarrow> datetime \<Rightarrow> (int \<times> ScheduleEvent list) list
                         \<Rightarrow> (int \<times> ScheduleEvent list) list" where
  "split_event event current_start by_day =
     (if current_start < end_time event then
        (let day_end = replace_hms current_start 23 59 59;
             segment_end = min day_end (end_time event);
             day_event = \<lparr>start_time = current_start, end_time = segment_end,
                          status = status event, note = note event, location = location event,
                          miles_start = miles_start event, miles_end = miles_end event\<rparr>
         in split_event event (replace_hms (current_start + timedelta_days 1) 0 0 0)
              (dict_append (day_key current_start) day_event by_day))
      else by_day)"
  by pat_completeness auto
termination
proof (relation "measure (\<lambda>(event, current_start, by_day). nat (end_time event - current_start))")
  show "wf (measure (\<lambda>(event, current_start, by_day). nat (end_time event - current_start)))"
    by simp
next
  fix event :: ScheduleEvent and current_start :: datetime
    and by_day :: "(int \<times> ScheduleEvent list) list"
    and x xa xb
  assume lt: "current_start < end_time event"
  have d: "(current_start + 86400000000) div 86400000000 = current_start div 86400000000 + 1"
    by simp
  have "current_start < (current_start div 86400000000 + 1) * 86400000000"
    using pos_mod_bound [of 86400000000 current_start]
    by (simp add: algebra_simps minus_mod_eq_mult_div [symmetric])
  moreover have "0 \<le> (current_start + 86400000000) mod 1000000"
    by simp
  ultimately have "current_start < replace_hms (current_start + timedelta_days 1) 0 0 0"
    unfolding replace_hms_def timedelta_days_def us_consts using d by simp
  with lt show "((event, replace_hms (current_start + timedelta_days 1) 0 0 0,
                  dict_append (day_key current_start) xb by_day),
                 event, current_start, by_day)
                \<in> measure (\<lambda>(event, current_start, by_day). nat (end_time event - current_start))"
    by simp
qed

declare split_event.simps [simp del]

definition get_schedule_by_day :: "TripSchedule \<Rightarrow> (int \<times> ScheduleEvent list) list" where
  "get_schedule_by_day sched =
     fold (\<lambda>event by_day. split_event event (start_time event) by_day) (events sched) []"

text \<open>The dictionary of totals, one field per key.\<close>

record daily_totals =
  driving_hours :: real
  on_duty_hours :: real
  off_duty_hours :: real
  sleeper_hours :: real
  totals_total_miles :: real

definition add_event_totals :: "ScheduleEvent \<Rightarrow> daily_totals \<Rightarrow> daily_totals" where
  "add_event_totals event totals =
     (let hours = duration_hours event
      in case status event of
           DRIVING \<Rightarrow>
             totals\<lparr>driving_hours := driving_hours totals + hours,
                    totals_total_miles := totals_total_miles totals
                                            + (miles_end event - miles_start event)\<rparr>
         | ON_DUTY_NOT_DRIVING \<Rightarrow> totals\<lparr>on_duty_hours := on_duty_hours totals + hours\<rparr>
         | OFF_DUTY \<Rightarrow> totals\<lparr>off_duty_hours := off_duty_hours totals + hours\<rparr>
         | SLEEPER_BERTH \<Rightarrow> totals\<lparr>sleeper_hours := sleeper_hours totals + hours\<rparr>)"

definition calculate_daily_totals :: "ScheduleEvent list \<Rightarrow> daily_totals" where
  "calculate_daily_totals evs =
     fold add_event_totals evs
       \<lparr>driving_hours = 0, on_duty_hours = 0, off_duty_hours = 0, sleeper_hours = 0,
        totals_total_miles = 0\<rparr>"

section \<open>Request validation and the trip-planning view (trips/serializers.py, trips/views.py)\<close>

text \<open>
  A request body carries three location dictionaries and \<open>cycleUsedHours\<close>; a missing key
  is \<open>None\<close>. \<open>FloatField(min_value=0, max_value=70, default=0)\<close> accepts a missing value
  and rejects a value below 0 or above 70.
\<close>

record LocationData =
  data_lat :: "real option"
  data_lng :: "real option"
  data_address :: "string option"

record PlanTripRequest =
  req_current :: "LocationData option"
  req_pickup :: "LocationData option"
  req_dropoff :: "LocationData option"
  cycleUsedHours :: "real option"

definition location_is_valid :: "LocationData option \<Rightarrow> bool" where
  "location_is_valid d =
     (case d of
        None \<Rightarrow> False
      | Some data \<Rightarrow>
          (let has_coords = (data_lat data \<noteq> None \<and> data_lng data \<noteq> None);
               has_address = (case data_address data of None \<Rightarrow> False | Some a \<Rightarrow> a \<noteq> [])
           in has_coords \<or> has_address))"

definition cycle_field_is_valid :: "real option \<Rightarrow> bool" where
  "cycle_field_is_valid c = (case c of None \<Rightarrow> True | Some x \<Rightarrow> 0 \<le> x \<and> x \<le> 70)"

definition is_valid :: "PlanTripRequest \<Rightarrow> bool" where
  "is_valid request \<longleftrightarrow>
     location_is_valid (req_current request) \<and> location_is_valid (req_pickup request) \<and>
     location_is_valid (req_dropoff request) \<and> cycle_field_is_valid (cycleUsedHours request)"

text \<open>
  \<open>_parse_location\<close>, with the two geocoding services as arguments. \<open>None\<close> is the
  \<open>ValueError\<close> that its docstring announces when the location cannot be determined.
\<close>

definition parse_location ::
  "(string \<Rightarrow> Location option) \<Rightarrow> (real \<Rightarrow> real \<Rightarrow> string) \<Rightarrow> LocationData \<Rightarrow> Location option" where
  "parse_location geocode_address reverse_geocode data =
     (let address0 = (case data_address data of None \<Rightarrow> [] | Some a \<Rightarrow> a)
      in case (data_lat data, data_lng data) of
           (Some lat_v, Some lng_v) \<Rightarrow>
             Some \<lparr>lat = lat_v, lng = lng_v,
                   address = (if address0 = [] then reverse_geocode lat_v lng_v else address0)\<rparr>
         | _ \<Rightarrow> (if address0 \<noteq> [] then geocode_address address0 else None))"

datatype Response = HTTP_400_BAD_REQUEST | HTTP_200_OK TripSchedule

text \<open>
  \<open>plan_trip\<close> up to the call of the scheduler. The routing service is the argument
  \<open>calculate_route\<close>. What follows the scheduler (log sheets, cache files, the response
  body) only reads the schedule; the successful response carries the schedule itself.
\<close>

definition plan_trip ::
  "(string \<Rightarrow> Location option) \<Rightarrow> (real \<Rightarrow> real \<Rightarrow> string)
   \<Rightarrow> (Location \<Rightarrow> Location \<Rightarrow> Location \<Rightarrow> RouteResult option)
   \<Rightarrow> datetime \<Rightarrow> PlanTripRequest \<Rightarrow> (py_error + Response) option" where
  "plan_trip geocode_address reverse_geocode calculate_route now request =
     (if \<not> is_valid request then Some (Inr HTTP_400_BAD_REQUEST)
      else
        case (parse_location geocode_address reverse_geocode (the (req_current request)),
              parse_location geocode_address reverse_geocode (the (req_pickup request)),
              parse_location geocode_address reverse_geocode (the (req_dropoff request))) of
          (Some current_location, Some pickup_location, Some dropoff_location) \<Rightarrow>
            (case calculate_route current_location pickup_location dropoff_location of
               None \<Rightarrow> Some (Inr HTTP_400_BAD_REQUEST)
             | Some route \<Rightarrow>
                 (let cycle_used = (case cycleUsedHours request of None \<Rightarrow> 0 | Some c \<Rightarrow> c)
                  in case create_trip_schedule route current_location pickup_location
                            dropoff_location cycle_used None now of
                       None \<Rightarrow> None
                     | Some (Inl e) \<Rightarrow> Some (Inl e)
                     | Some (Inr sched) \<Rightarrow> Some (Inr (HTTP_200_OK sched))))
        | _ \<Rightarrow> Some (Inr HTTP_400_BAD_REQUEST))"

section \<open>Properties of schedules, as predicates on the output\<close>

text \<open>
  \<open>tiles a es b\<close>: the events \<open>es\<close> follow one another without a gap from time \<open>a\<close>
  to time \<open>b\<close>.
\<close>

fun tiles :: "datetime \<Rightarrow> ScheduleEvent list \<Rightarrow> datetime \<Rightarrow> bool" where
  "tiles a [] b \<longleftrightarrow> a = b"
| "tiles a (e # es) b \<longleftrightarrow> start_time e = a \<and> tiles (end_time e) es b"

text \<open>
  A stop and the event that records it: a non-driving event of the stop's duration, at the
  stop's mile marker.
\<close>

definition stop_matches :: "Stop \<Rightarrow> ScheduleEvent \<Rightarrow> bool" where
  "stop_matches s e \<longleftrightarrow>
     status e \<noteq> DRIVING \<and> duration_minutes e = real_of_int (stop_duration_minutes s) \<and>
     miles_start e = miles_end e \<and> mile_marker s = Some (miles_start e)"





text \<open>The HOS state with which \<open>create_trip_schedule\<close> starts a trip.\<close>

definition initial_hos_state :: "real \<Rightarrow> HOSState" where
  "initial_hos_state cycle_used_hours =
     start_new_shift \<lparr>driving_hours_in_shift = 0, on_duty_hours_in_shift = 0,
                      duty_window_hours = 0, driving_since_last_break = 0,
                      cycle_hours_used = cycle_used_hours, shift_active = False\<rparr>"

text \<open>
  What every emitted event satisfies: it does not end before it starts, and it has a
  positive length unless it is a driving segment of at most 11/1440000000 mile, which is
  half a microsecond at the average speed.
\<close>

definition event_ok :: "ScheduleEvent \<Rightarrow> bool" where
  "event_ok e \<longleftrightarrow>
     start_time e \<le> end_time e \<and>
     (status e \<noteq> DRIVING \<or> 11 / 1440000000 < miles_end e - miles_start e
        \<longrightarrow> start_time e < end_time e)"

text \<open>
  \<open>extends v v'\<close>: the run from \<open>v\<close> to \<open>v'\<close> only appended to the schedule; the new
  events tile the time that passed, and the new stops are the new non-driving events.
\<close>

definition extends :: "loop_vars \<Rightarrow> loop_vars \<Rightarrow> bool" where
  "extends v v' \<longleftrightarrow>
     (\<exists>es ss. events (schedule v') = events (schedule v) @ es \<and>
              stops (schedule v') = stops (schedule v) @ ss \<and>
              trip_start_time (schedule v') = trip_start_time (schedule v) \<and>
              tiles (current_time v) es (current_time v') \<and>
              list_all event_ok es \<and>
              list_all2 stop_matches ss (filter (\<lambda>e. status e \<noteq> DRIVING) es))"

text \<open>The cycle budget is used up while miles remain on the leg.\<close>

definition cycle_exhausted :: "loop_vars \<Rightarrow> bool" where
  "cycle_exhausted u \<longleftrightarrow> 70 \<le> cycle_hours_used (hos_state u) \<and> 0 < miles_to_drive u"


text \<open>
  The invariant of the HOS state during a trip. Within a shift the duty window is the sum
  of three parts: the driving hours, the on-duty stops (pickup, fuel) and the rest break.
  \<open>stop_hours\<close> and \<open>break_hours\<close> are the last two. A shift holds at most one rest
  break, taken after 8 hours of driving, and at most one fuel stop, since its 11 driving
  hours cover 605 miles and fuel boundaries are 1000 miles apart; \<open>picked_up\<close> tells
  whether the pickup hour may lie in the shift.
\<close>

definition stop_hours :: "HOSState \<Rightarrow> real" where
  "stop_hours h = on_duty_hours_in_shift h - driving_hours_in_shift h"

definition break_hours :: "HOSState \<Rightarrow> real" where
  "break_hours h = duty_window_hours h - on_duty_hours_in_shift h"

definition boundary_in_shift :: "HOSState \<Rightarrow> real \<Rightarrow> bool" where
  "boundary_in_shift h m \<longleftrightarrow>
     (\<exists>k::int. m - 55 * driving_hours_in_shift h < 1000 * real_of_int k \<and>
               1000 * real_of_int k \<le> m)"

definition shift_inv :: "bool \<Rightarrow> HOSState \<Rightarrow> real \<Rightarrow> bool" where
  "shift_inv picked_up h m \<longleftrightarrow>
     0 \<le> driving_since_last_break h \<and>
     driving_since_last_break h \<le> driving_hours_in_shift h \<and>
     driving_hours_in_shift h \<le> 11 \<and>
     driving_since_last_break h \<le> 8 \<and>
     (stop_hours h = 0 \<or> stop_hours h = 1/2 \<or>
      (picked_up \<and> (stop_hours h = 1 \<or> stop_hours h = 3/2))) \<and>
     (stop_hours h = 1/2 \<or> stop_hours h = 3/2 \<longrightarrow> boundary_in_shift h m) \<and>
     (break_hours h = 0 \<or>
      (break_hours h = 1/2 \<and> 8 \<le> driving_hours_in_shift h - driving_since_last_break h)) \<and>
     (\<not> shift_active h \<longrightarrow>
        driving_hours_in_shift h = 0 \<and> on_duty_hours_in_shift h = 0 \<and>
        duty_window_hours h = 0 \<and> driving_since_last_break h = 0)"



section \<open>Example trips\<close>

definition depot :: Location where
  "depot = \<lparr>lat = 418781 / 10000, lng = - 876298 / 10000, address = ''Chicago, IL''\<rparr>"

definition two_leg_route :: "real \<Rightarrow> real \<Rightarrow> RouteResult" where
  "two_leg_route a b =
     \<lparr>legs = [\<lparr>from_location = ''current'', to_location = ''pickup'', distance_miles = a,
                leg_duration_minutes = a * 60 / 55, polyline = []\<rparr>,
              \<lparr>from_location = ''pickup'', to_location = ''dropoff'', distance_miles = b,
                leg_duration_minutes = b * 60 / 55, polyline = []\<rparr>],
      total_distance_miles = a + b, total_duration_minutes = (a + b) * 60 / 55,
      full_polyline = []\<rparr>"

text \<open>The schedule of two legs of 50 miles, started at time 0 with an unused cycle.\<close>

definition short_trip_schedule :: TripSchedule where
  "short_trip_schedule =
     \<lparr>events =
        [\<lparr>start_time = 0, end_time = 3272727273, status = DRIVING,
          note = ''Driving to Pickup'', location = ''Mile 0 - 50'',
          miles_start = 0, miles_end = 50\<rparr>,
         \<lparr>start_time = 3272727273, end_time = 6872727273, status = ON_DUTY_NOT_DRIVING,
          note = ''Pickup - Loading'', location = ''Chicago, IL'',
          miles_start = 50, miles_end = 50\<rparr>,
         \<lparr>start_time = 6872727273, end_time = 10145454546, status = DRIVING,
          note = ''Driving to Dropoff'', location = ''Mile 50 - 100'',
          miles_start = 50, miles_end = 100\<rparr>,
         \<lparr>start_time = 10145454546, end_time = 13745454546, status = ON_DUTY_NOT_DRIVING,
          note = ''Dropoff - Unloading'', location = ''Chicago, IL'',
          miles_start = 100, miles_end = 100\<rparr>],
      stops =
        [\<lparr>stop_type = PICKUP, stop_duration_minutes = 60, stop_location = ''Chicago, IL'',
          stop_lat = Some (418781 / 10000), stop_lng = Some (- 876298 / 10000),
          mile_marker = Some 50, reason = ''Loading cargo''\<rparr>,
         \<lparr>stop_type = DROPOFF, stop_duration_minutes = 60, stop_location = ''Chicago, IL'',
          stop_lat = Some (418781 / 10000), stop_lng = Some (- 876298 / 10000),
          mile_marker = Some 100, reason = ''Unloading cargo''\<rparr>],
      total_driving_hours = 20 / 11, total_on_duty_hours = 42 / 11,
      total_off_duty_hours = 0, total_miles = 100,
      trip_start_time = Some 0, trip_end_time = Some 13745454546\<rparr>"

text \<open>
  The loop variables at mile 605, at the start of a fresh shift after a reset, with
  \<open>d\<close> miles left on the leg.
\<close>

definition at_mile_605 :: "real \<Rightarrow> loop_vars" where
  "at_mile_605 d =
     \<lparr>schedule = \<lparr>events = [], stops = [], total_driving_hours = 11,
                   total_on_duty_hours = 11, total_off_duty_hours = 21 / 2, total_miles = 0,
                   trip_start_time = Some 0, trip_end_time = None\<rparr>,
      current_time = 77400000000,
      hos_state = \<lparr>driving_hours_in_shift = 0, on_duty_hours_in_shift = 0,
                    duty_window_hours = 0, driving_since_last_break = 0,
                    cycle_hours_used = 11, shift_active = False\<rparr>,
      current_miles = 605, miles_to_drive = d, leg_miles_driven = 605\<rparr>"

text \<open>
  External services for a request whose three locations are given by coordinates and
  address: no geocoder is needed, and the routing service returns a fixed route.
\<close>

definition no_geocoder :: "string \<Rightarrow> Location option" where
  "no_geocoder a = None"

definition coordinates_as_address :: "real \<Rightarrow> real \<Rightarrow> string" where
  "coordinates_as_address la lo = format_f 4 la @ '', '' @ format_f 4 lo"

definition route_service :: "RouteResult \<Rightarrow> Location \<Rightarrow> Location \<Rightarrow> Location \<Rightarrow> RouteResult option" where
  "route_service r a b c = Some r"

definition request_at_depot :: "real option \<Rightarrow> PlanTripRequest" where
  "request_at_depot c =
     (let d = Some \<lparr>data_lat = Some (418781 / 10000), data_lng = Some (- 876298 / 10000),
                     data_address = Some ''Chicago, IL''\<rparr>
      in \<lparr>req_current = d, req_pickup = d, req_dropoff = d, cycleUsedHours = c\<rparr>)"

text \<open>
  The schedule of a first leg of 220 miles started at 22:00 of day 0: four hours of
  driving, from 22:00 to 02:00 of day 1, then the pickup and the dropoff.
\<close>

definition overnight_schedule :: TripSchedule where
  "overnight_schedule =
     \<lparr>events =
        [\<lparr>start_time = 79200000000, end_time = 93600000000, status = DRIVING,
          note = ''Driving to Pickup'', location = ''Mile 0 - 220'',
          miles_start = 0, miles_end = 220\<rparr>,
         \<lparr>start_time = 93600000000, end_time = 97200000000, status = ON_DUTY_NOT_DRIVING,
          note = ''Pickup - Loading'', location = ''Chicago, IL'',
          miles_start = 220, miles_end = 220\<rparr>,
         \<lparr>start_time = 97200000000, end_time = 100800000000, status = ON_DUTY_NOT_DRIVING,
          note = ''Dropoff - Unloading'', location = ''Chicago, IL'',
          miles_start = 220, miles_end = 220\<rparr>],
      stops =
        [\<lparr>stop_type = PICKUP, stop_duration_minutes = 60, stop_location = ''Chicago, IL'',
          stop_lat = Some (418781 / 10000), stop_lng = Some (- 876298 / 10000),
          mile_marker = Some 220, reason = ''Loading cargo''\<rparr>,
         \<lparr>stop_type = DROPOFF, stop_duration_minutes = 60, stop_location = ''Chicago, IL'',
          stop_lat = Some (418781 / 10000), stop_lng = Some (- 876298 / 10000),
          mile_marker = Some 220, reason = ''Unloading cargo''\<rparr>],
      total_driving_hours = 4, total_on_duty_hours = 6, total_off_duty_hours = 0,
      total_miles = 220, trip_start_time = Some 79200000000,
      trip_end_time = Some 100800000000\<rparr>"

section \<open>Properties of the rules engine\<close>

text \<open>
  Claim C3. For every HOS state, the maximum further continuous driving is
  max(0, min(drivingRemaining, windowRemaining, cycleRemaining, hoursUntilBreakRequired)),
  and each remaining budget is its cap (11, 14, 70 and 8 hours) minus the consumed counter,
  floored at 0.
\<close>

theorem max_continuous_driving_is_binding_minimum:
  "get_max_continuous_driving_hours s =
     max 0 (Min {driving_hours_remaining s, duty_window_remaining s,
                 cycle_hours_remaining s, hours_until_break_required s})
   \<and> driving_hours_remaining s = max 0 (11 - driving_hours_in_shift s)
   \<and> duty_window_remaining s = max 0 (14 - duty_window_hours s)
   \<and> cycle_hours_remaining s = max 0 (70 - cycle_hours_used s)
   \<and> hours_until_break_required s = max 0 (8 - driving_since_last_break s)"
  by (simp add: get_max_continuous_driving_hours_def driving_hours_remaining_def
      duty_window_remaining_def cycle_hours_remaining_def hours_until_break_required_def
      hos_consts min.assoc)

text \<open>
  Claim C6. Off-duty time of at least 10 hours zeroes the four shift counters, clears
  \<open>shift_active\<close> and keeps \<open>cycle_hours_used\<close>; shorter off-duty time adds the hours to
  \<open>duty_window_hours\<close> only, zeroes \<open>driving_since_last_break\<close> and leaves every other
  field as it was.
\<close>

theorem add_off_duty_time_cases:
  "(hours \<ge> 10 \<longrightarrow>
      add_off_duty_time s hours =
        \<lparr>driving_hours_in_shift = 0, on_duty_hours_in_shift = 0, duty_window_hours = 0,
         driving_since_last_break = 0, cycle_hours_used = cycle_hours_used s,
         shift_active = False\<rparr>)
   \<and> (hours < 10 \<longrightarrow>
      add_off_duty_time s hours =
        s\<lparr>duty_window_hours := duty_window_hours s + hours, driving_since_last_break := 0\<rparr>)"
  by (simp add: add_off_duty_time_def hos_consts)

theorem add_off_duty_time_cases_witness:
  "(10::real) \<ge> 10 \<and> (1/2::real) < 10
   \<and> add_off_duty_time
        \<lparr>driving_hours_in_shift = 8, on_duty_hours_in_shift = 9, duty_window_hours = 10,
         driving_since_last_break = 8, cycle_hours_used = 30, shift_active = True\<rparr> 10
      = \<lparr>driving_hours_in_shift = 0, on_duty_hours_in_shift = 0, duty_window_hours = 0,
         driving_since_last_break = 0, cycle_hours_used = 30, shift_active = False\<rparr>
   \<and> add_off_duty_time
        \<lparr>driving_hours_in_shift = 8, on_duty_hours_in_shift = 9, duty_window_hours = 10,
         driving_since_last_break = 8, cycle_hours_used = 30, shift_active = True\<rparr> (1/2)
      = \<lparr>driving_hours_in_shift = 8, on_duty_hours_in_shift = 9, duty_window_hours = 21/2,
         driving_since_last_break = 0, cycle_hours_used = 30, shift_active = True\<rparr>"
  using add_off_duty_time_cases
    [of 10 "\<lparr>driving_hours_in_shift = 8, on_duty_hours_in_shift = 9, duty_window_hours = 10,
         driving_since_last_break = 8, cycle_hours_used = 30, shift_active = True\<rparr>"]
    add_off_duty_time_cases
    [of "1/2" "\<lparr>driving_hours_in_shift = 8, on_duty_hours_in_shift = 9, duty_window_hours = 10,
         driving_since_last_break = 8, cycle_hours_used = 30, shift_active = True\<rparr>"]
  by simp

section \<open>The drive loop: invariants and what a run appends\<close>

lemma drive_loop_rule:
  assumes run: "drive_loop n v = Some v'"
    and init: "P v"
    and step: "\<And>u. P u \<Longrightarrow> miles_to_drive u > 0 \<Longrightarrow> P (drive_iter n u)"
  shows "P v' \<and> \<not> miles_to_drive v' > 0"
proof -
  have "n = n \<longrightarrow> P v \<longrightarrow> P v' \<and> \<not> miles_to_drive v' > 0"
  proof (rule drive_loop.raw_induct
      [where P = "\<lambda>m u y. m = n \<longrightarrow> P u \<longrightarrow> P y \<and> \<not> miles_to_drive y > 0", OF _ run])
    fix loop m u y
    assume IH: "\<And>m u y. loop m u = Some y \<Longrightarrow> m = n \<longrightarrow> P u \<longrightarrow> P y \<and> \<not> miles_to_drive y > 0"
      and eq: "(if 0 < miles_to_drive u then loop m (drive_iter m u) else Some u) = Some y"
    show "m = n \<longrightarrow> P u \<longrightarrow> P y \<and> \<not> miles_to_drive y > 0"
    proof (cases "0 < miles_to_drive u")
      case True
      with eq have "loop m (drive_iter m u) = Some y" by simp
      from IH[OF this] step True show ?thesis by blast
    next
      case False
      with eq show ?thesis by auto
    qed
  qed
  with init show ?thesis by simp
qed

lemma round_half_even_nonneg: "0 \<le> x \<Longrightarrow> 0 \<le> round_half_even x"
  by (auto simp: round_half_even_def Let_def)

lemma round_half_even_pos:
  assumes "1/2 < x" shows "0 < round_half_even x"
proof -
  have f0: "0 \<le> \<lfloor>x\<rfloor>" using assms by simp
  show ?thesis
  proof (cases "\<lfloor>x\<rfloor> = 0")
    case True
    then have "x - real_of_int \<lfloor>x\<rfloor> = x" by simp
    with assms True show ?thesis by (simp add: round_half_even_def Let_def)
  next
    case False
    with f0 have "1 \<le> \<lfloor>x\<rfloor>" by linarith
    then show ?thesis by (auto simp: round_half_even_def Let_def)
  qed
qed

lemma timedelta_hours_10: "timedelta_hours 10 = 36000000000"
  by (simp add: timedelta_hours_def round_half_even_def us_consts)

lemma tiles_append: "tiles a (xs @ ys) c \<longleftrightarrow> (\<exists>b. tiles a xs b \<and> tiles b ys c)"
  by (induction xs arbitrary: a) auto

lemma extends_refl: "extends v v"
  by (simp add: extends_def)

lemma extends_trans [trans]:
  assumes "extends u v" and "extends v w" shows "extends u w"
proof -
  from assms(1) obtain es ss where 1:
    "events (schedule v) = events (schedule u) @ es" "stops (schedule v) = stops (schedule u) @ ss"
    "trip_start_time (schedule v) = trip_start_time (schedule u)"
    "tiles (current_time u) es (current_time v)" "list_all event_ok es"
    "list_all2 stop_matches ss (filter (\<lambda>e. status e \<noteq> DRIVING) es)"
    unfolding extends_def by blast
  from assms(2) obtain es' ss' where 2:
    "events (schedule w) = events (schedule v) @ es'" "stops (schedule w) = stops (schedule v) @ ss'"
    "trip_start_time (schedule w) = trip_start_time (schedule v)"
    "tiles (current_time v) es' (current_time w)" "list_all event_ok es'"
    "list_all2 stop_matches ss' (filter (\<lambda>e. status e \<noteq> DRIVING) es')"
    unfolding extends_def by blast
  have "tiles (current_time u) (es @ es') (current_time w)"
    using 1(4) 2(4) tiles_append by blast
  moreover have "list_all2 stop_matches (ss @ ss') (filter (\<lambda>e. status e \<noteq> DRIVING) (es @ es'))"
    using 1(6) 2(6) by (simp add: list_all2_appendI)
  ultimately show ?thesis
    unfolding extends_def using 1 2
    by (intro exI[of _ "es @ es'"] exI[of _ "ss @ ss'"]) simp
qed

lemma extends_one:
  assumes "events (schedule v') = events (schedule v) @ [e]"
    and "stops (schedule v') = stops (schedule v) @ [s]"
    and "trip_start_time (schedule v') = trip_start_time (schedule v)"
    and "start_time e = current_time v" and "end_time e = current_time v'"
    and "event_ok e" and "stop_matches s e"
  shows "extends v v'"
  unfolding extends_def using assms
  by (intro exI[of _ "[e]"] exI[of _ "[s]"]) (simp add: stop_matches_def)

lemma extends_fuel:
  "extends v (assign_stop v (add_fuel_stop (schedule v) (current_time v) (hos_state v) (current_miles v) n))"
  apply (rule extends_one)
  apply (simp add: assign_stop_def add_fuel_stop_def Let_def event_ok_def stop_matches_def
        duration_minutes_def timedelta_minutes_def hos_consts us_consts)+
  done

lemma extends_rest:
  "extends v (assign_stop v (add_rest_break (schedule v) (current_time v) (hos_state v) (current_miles v) n))"
  apply (rule extends_one)
  apply (simp add: assign_stop_def add_rest_break_def Let_def event_ok_def stop_matches_def
        duration_minutes_def timedelta_minutes_def hos_consts us_consts)+
  done

lemma extends_reset:
  "extends v (assign_stop v (add_off_duty_reset (schedule v) (current_time v) (hos_state v) (current_miles v) n))"
  apply (rule extends_one)
  apply (simp add: assign_stop_def add_off_duty_reset_def Let_def event_ok_def stop_matches_def
        duration_minutes_def timedelta_hours_10 py_int_def hos_consts us_consts)+
  done

lemma extends_pickup:
  "extends v (assign_stop v (add_pickup_stop (schedule v) (current_time v) (hos_state v) (current_miles v) l))"
  apply (rule extends_one)
  apply (simp add: assign_stop_def add_pickup_stop_def Let_def event_ok_def stop_matches_def
        duration_minutes_def timedelta_minutes_def hos_consts us_consts)+
  done

lemma extends_dropoff:
  "extends v (assign_stop v (add_dropoff_stop (schedule v) (current_time v) (hos_state v) (current_miles v) l))"
  apply (rule extends_one)
  apply (simp add: assign_stop_def add_dropoff_stop_def Let_def event_ok_def stop_matches_def
        duration_minutes_def timedelta_minutes_def hos_consts us_consts)+
  done

lemma timedelta_hours_nonneg: "0 \<le> h \<Longrightarrow> 0 \<le> timedelta_hours h"
  by (simp add: timedelta_hours_def round_half_even_nonneg us_consts)

lemma timedelta_hours_pos: "1 / 7200000000 < h \<Longrightarrow> 0 < timedelta_hours h"
  unfolding timedelta_hours_def us_consts
  by (rule round_half_even_pos) simp

lemma extends_drive:
  assumes "0 < seg"
  shows "extends v (drive_segment n seg v)"
proof -
  have a: "0 \<le> timedelta_hours (seg / 55)"
    using assms by (intro timedelta_hours_nonneg) simp
  have b: "11 / 1440000000 < seg \<Longrightarrow> 0 < timedelta_hours (seg / 55)"
    by (rule timedelta_hours_pos) simp
  show ?thesis
    unfolding extends_def drive_segment_def Let_def
    apply (rule exI[of _ "[\<lparr>start_time = current_time v,
               end_time = current_time v + timedelta_hours (seg / AVG_SPEED_MPH), status = DRIVING,
               note = ''Driving to '' @ n,
               location = ''Mile '' @ format_f 0 (current_miles v) @ '' - '' @
                           format_f 0 (current_miles v + seg),
               miles_start = current_miles v, miles_end = current_miles v + seg\<rparr>]"])
    apply (rule exI[of _ "[]"])
    using a b by (simp add: event_ok_def hos_consts)
qed

lemma extends_cannot_drive: "extends v (cannot_drive v)"
  by (simp add: cannot_drive_def extends_rest extends_reset extends_refl)

lemma extends_check_fuel: "extends v (check_fuel_stop seg v)"
  by (simp add: check_fuel_stop_def extends_fuel extends_refl)

lemma extends_check_rest: "extends v (check_rest_break v)"
  by (simp add: check_rest_break_def extends_rest extends_refl)

lemma extends_check_reset: "extends v (check_reset v)"
  by (simp add: check_reset_def extends_reset extends_refl)

lemma extends_drive_iter: "extends v (drive_iter n v)"
proof (cases "segment_miles v \<le> 0")
  case True
  then show ?thesis by (simp add: drive_iter_def extends_cannot_drive)
next
  case False
  define v1 where "v1 = drive_segment n (segment_miles v) v"
  define v2 where "v2 = check_fuel_stop (segment_miles v) v1"
  define v3 where "v3 = check_rest_break v2"
  have "extends v v1"
    unfolding v1_def using False by (intro extends_drive) simp
  also have "extends v1 v2"
    unfolding v2_def by (rule extends_check_fuel)
  also have "extends v2 v3"
    unfolding v3_def by (rule extends_check_rest)
  also have "extends v3 (check_reset v3)"
    by (rule extends_check_reset)
  finally show ?thesis
    using False by (simp add: drive_iter_def Let_def v1_def v2_def v3_def)
qed

lemma extends_drive_loop:
  assumes "drive_loop n v = Some v'" shows "extends v v'"
  using drive_loop_rule [OF assms, where P = "extends v"]
  by (blast intro: extends_refl extends_trans extends_drive_iter)

lemma extends_set_leg: "extends v (v\<lparr>miles_to_drive := a, leg_miles_driven := b\<rparr>)"
  by (simp add: extends_def)

lemma extends_process_leg:
  assumes "process_leg pl dl ld v = Some v'" shows "extends v v'"
proof -
  from assms obtain u where u: "drive_loop (end_name ld)
      (v\<lparr>miles_to_drive := distance_miles (leg ld), leg_miles_driven := 0\<rparr>) = Some u"
    by (auto simp: process_leg_def split: option.splits)
  from extends_drive_loop[OF u] extends_set_leg have "extends v u"
    by (blast intro: extends_trans)
  moreover have "extends u v'"
    using assms u by (auto simp: process_leg_def extends_pickup extends_dropoff)
  ultimately show ?thesis by (rule extends_trans)
qed

lemma process_leg_nonempty:
  assumes "process_leg pl dl ld v = Some v'" shows "events (schedule v') \<noteq> []"
  using assms
  by (auto simp: process_leg_def assign_stop_def add_pickup_stop_def add_dropoff_stop_def Let_def
      split: option.splits if_splits)

lemma extends_process_legs:
  assumes "process_legs pl dl lds v = Some v'" shows "extends v v'"
  using assms
proof (induction lds arbitrary: v)
  case Nil
  then show ?case by (simp add: extends_refl)
next
  case (Cons ld lds)
  then show ?case
    by (auto split: option.splits intro: extends_trans extends_process_leg)
qed

lemma extends_nonempty: "extends v v' \<Longrightarrow> events (schedule v) \<noteq> [] \<Longrightarrow> events (schedule v') \<noteq> []"
  by (auto simp: extends_def)

lemma process_legs_nonempty:
  assumes "process_legs pl dl lds v = Some v'" and "lds \<noteq> []"
  shows "events (schedule v') \<noteq> []"
  using assms
proof (induction lds arbitrary: v)
  case Nil
  then show ?case by simp
next
  case (Cons ld lds)
  from Cons.prems obtain u where u: "process_leg pl dl ld v = Some u"
    and r: "process_legs pl dl lds u = Some v'"
    by (auto split: option.splits)
  from process_leg_nonempty[OF u] extends_process_legs[OF r] show ?case
    by (rule extends_nonempty[rotated])
qed

lemma create_trip_schedule_shape:
  assumes "create_trip_schedule r cl pl dl c st now = Some (Inr s)"
  shows "\<exists>t0 t1. trip_start_time s = Some t0 \<and> trip_end_time s = Some t1 \<and>
           (st \<noteq> None \<longrightarrow> st = Some t0) \<and>
           events s \<noteq> [] \<and> tiles t0 (events s) t1 \<and> list_all event_ok (events s) \<and>
           list_all2 stop_matches (stops s) (filter (\<lambda>e. status e \<noteq> DRIVING) (events s))"
proof -
  define t0 where "t0 = (case st of None \<Rightarrow> (now div US_PER_HOUR) * US_PER_HOUR + timedelta_hours 1
                                   | Some t \<Rightarrow> t)"
  from assms obtain lds v0 v where run: "process_legs pl dl lds v0 = Some v"
    and lds: "lds \<noteq> []"
    and v0: "events (schedule v0) = []" "stops (schedule v0) = []"
            "trip_start_time (schedule v0) = Some t0" "current_time v0 = t0"
    and s: "s = (schedule v)\<lparr>total_miles := current_miles v,
                              trip_end_time := Some (current_time v)\<rparr>"
    unfolding create_trip_schedule_def Let_def t0_def
    by (auto simp del: process_legs.simps split: if_splits option.splits)
  from extends_process_legs[OF run] v0 obtain es ss where
    "events (schedule v) = es" "stops (schedule v) = ss"
    "trip_start_time (schedule v) = Some t0" "tiles t0 es (current_time v)"
    "list_all event_ok es" "list_all2 stop_matches ss (filter (\<lambda>e. status e \<noteq> DRIVING) es)"
    unfolding extends_def by auto
  moreover have "events (schedule v) \<noteq> []"
    by (rule process_legs_nonempty[OF run lds])
  moreover have "st \<noteq> None \<longrightarrow> st = Some t0"
    by (auto simp: t0_def)
  ultimately show ?thesis
    using s by auto
qed

lemma tiles_hd_last:
  "tiles a es b \<Longrightarrow> es \<noteq> [] \<Longrightarrow> start_time (hd es) = a \<and> end_time (last es) = b"
  by (induction es arbitrary: a) (auto split: if_splits)

lemma tiles_nth:
  "tiles a es b \<Longrightarrow> Suc i < length es \<Longrightarrow> start_time (es ! Suc i) = end_time (es ! i)"
proof (induction es arbitrary: a i)
  case Nil
  then show ?case by simp
next
  case (Cons e es)
  show ?case
  proof (cases i)
    case 0
    with Cons.prems show ?thesis by (cases es) auto
  next
    case (Suc j)
    with Cons.prems Cons.IH[of "end_time e" j] show ?thesis by simp
  qed
qed

lemma tiles_ordered:
  "tiles a es b \<Longrightarrow> list_all (\<lambda>e. start_time e \<le> end_time e) es \<Longrightarrow>
     (\<forall>e \<in> set es. a \<le> start_time e) \<and>
     sorted_wrt (\<lambda>x y. end_time x \<le> start_time y) es \<and>
     sorted_wrt (\<lambda>x y. start_time x \<le> start_time y) es"
proof (induction es arbitrary: a)
  case Nil
  then show ?case by simp
next
  case (Cons e es)
  from Cons.prems have t: "tiles (end_time e) es b" and a: "start_time e = a"
    and le: "start_time e \<le> end_time e"
    and all: "list_all (\<lambda>e. start_time e \<le> end_time e) es"
    by auto
  from Cons.IH[OF t all] le a show ?case by fastforce
qed

section \<open>Properties of the schedules the scheduler returns\<close>

lemma short_trip_run:
  "create_trip_schedule (two_leg_route 50 50) depot depot depot 0 (Some 0) 0
     = Some (Inr short_trip_schedule)"
  by code_simp

text \<open>
  Claim C10. In every schedule the scheduler returns, the events tile the trip's interval:
  the first event starts at the trip's start time (the \<open>start_time\<close> argument when one is
  given), each later event starts when the one before it ends, and the trip's end time is
  the end of the last event.
\<close>

theorem events_tile_trip_interval:
  assumes "create_trip_schedule route cl pl dl cycle_used st now = Some (Inr s)"
  shows "events s \<noteq> [] \<and>
         trip_start_time s = Some (start_time (hd (events s))) \<and>
         trip_end_time s = Some (end_time (last (events s))) \<and>
         (\<forall>t. st = Some t \<longrightarrow> start_time (hd (events s)) = t) \<and>
         (\<forall>i. Suc i < length (events s) \<longrightarrow>
               start_time (events s ! Suc i) = end_time (events s ! i))"
proof -
  from create_trip_schedule_shape[OF assms] obtain t0 t1 where
    a: "trip_start_time s = Some t0" "trip_end_time s = Some t1"
       "st \<noteq> None \<longrightarrow> st = Some t0" "events s \<noteq> []" "tiles t0 (events s) t1"
    by blast
  from tiles_hd_last[OF a(5) a(4)] a(1-4) tiles_nth[OF a(5)] show ?thesis
    by auto
qed

theorem events_tile_trip_interval_witness:
  "events short_trip_schedule \<noteq> [] \<and>
   trip_start_time short_trip_schedule = Some (start_time (hd (events short_trip_schedule))) \<and>
   trip_end_time short_trip_schedule = Some (end_time (last (events short_trip_schedule))) \<and>
   start_time (hd (events short_trip_schedule)) = 0 \<and>
   start_time (events short_trip_schedule ! Suc 0) = end_time (events short_trip_schedule ! 0)"
proof -
  have "Suc 0 < length (events short_trip_schedule)"
    by (simp add: short_trip_schedule_def)
  with events_tile_trip_interval[OF short_trip_run] show ?thesis
    by blast
qed

text \<open>
  Claim C9. In every schedule the scheduler returns, the stops are, in order, the
  non-driving events: each stop has one non-driving event whose duration in minutes is the
  stop's \<open>duration_minutes\<close> and whose mile position (\<open>miles_start = miles_end\<close>) is the
  stop's mile marker.
\<close>

theorem stops_are_the_non_driving_events:
  assumes "create_trip_schedule route cl pl dl cycle_used st now = Some (Inr s)"
  shows "list_all2 (\<lambda>sp e. duration_minutes e = real_of_int (stop_duration_minutes sp) \<and>
                            miles_start e = miles_end e \<and>
                            mile_marker sp = Some (miles_start e))
           (stops s) (filter (\<lambda>e. status e \<noteq> DRIVING) (events s))"
proof -
  from create_trip_schedule_shape[OF assms] have
    "list_all2 stop_matches (stops s) (filter (\<lambda>e. status e \<noteq> DRIVING) (events s))"
    by blast
  then show ?thesis
    by (rule list_all2_mono) (simp add: stop_matches_def)
qed

theorem stops_are_the_non_driving_events_witness:
  "list_all2 (\<lambda>sp e. duration_minutes e = real_of_int (stop_duration_minutes sp) \<and>
                      miles_start e = miles_end e \<and>
                      mile_marker sp = Some (miles_start e))
     (stops short_trip_schedule)
     (filter (\<lambda>e. status e \<noteq> DRIVING) (events short_trip_schedule)) \<and>
   length (stops short_trip_schedule) = 2"
proof -
  have "length (stops short_trip_schedule) = 2"
    by (simp add: short_trip_schedule_def)
  with stops_are_the_non_driving_events[OF short_trip_run] show ?thesis
    by blast
qed

text \<open>
  Claim C8, as amended. In every schedule the scheduler returns, no event ends before it
  starts, every event other than a driving segment of at most 11/1440000000 mile (half a
  microsecond of driving, which the clock rounds to nothing) has \<open>start_time < end_time\<close>,
  the events are in non-decreasing order of start time, and no two events overlap.
\<close>

theorem events_ordered_without_overlap:
  assumes "create_trip_schedule route cl pl dl cycle_used st now = Some (Inr s)"
  shows "(\<forall>e \<in> set (events s).
            start_time e \<le> end_time e \<and>
            (status e \<noteq> DRIVING \<or> 11 / 1440000000 < miles_end e - miles_start e
               \<longrightarrow> start_time e < end_time e)) \<and>
         sorted (map start_time (events s)) \<and>
         sorted_wrt (\<lambda>x y. end_time x \<le> start_time y) (events s)"
proof -
  from create_trip_schedule_shape[OF assms] obtain t0 t1 where
    t: "tiles t0 (events s) t1" and ok: "list_all event_ok (events s)"
    by blast
  from ok have le: "list_all (\<lambda>e. start_time e \<le> end_time e) (events s)"
    by (simp add: list_all_iff event_ok_def)
  from tiles_ordered[OF t le] ok show ?thesis
    by (simp add: sorted_map list_all_iff event_ok_def)
qed

theorem events_ordered_without_overlap_witness:
  "start_time (events short_trip_schedule ! 0) < end_time (events short_trip_schedule ! 0) \<and>
   sorted (map start_time (events short_trip_schedule)) \<and>
   sorted_wrt (\<lambda>x y. end_time x \<le> start_time y) (events short_trip_schedule)"
proof -
  have "events short_trip_schedule ! 0 \<in> set (events short_trip_schedule)"
     and "11 / 1440000000 < miles_end (events short_trip_schedule ! 0)
                              - miles_start (events short_trip_schedule ! 0)"
    by (simp_all add: short_trip_schedule_def)
  with events_ordered_without_overlap[OF short_trip_run] show ?thesis
    by blast
qed

text \<open>
  Claim C8 as stated fails: a first leg of a billionth of a mile takes less than half a
  microsecond to drive, and its driving event starts and ends at the same time.
\<close>

theorem zero_length_event_counterexample:
  "create_trip_schedule (two_leg_route (1 / 1000000000) 0) depot depot depot 0 (Some 0) 0 =
     Some (Inr
       \<lparr>events =
          [\<lparr>start_time = 0, end_time = 0, status = DRIVING,
            note = ''Driving to Pickup'', location = ''Mile 0 - 0'',
            miles_start = 0, miles_end = 1 / 1000000000\<rparr>,
           \<lparr>start_time = 0, end_time = 3600000000, status = ON_DUTY_NOT_DRIVING,
            note = ''Pickup - Loading'', location = ''Chicago, IL'',
            miles_start = 1 / 1000000000, miles_end = 1 / 1000000000\<rparr>,
           \<lparr>start_time = 3600000000, end_time = 7200000000, status = ON_DUTY_NOT_DRIVING,
            note = ''Dropoff - Unloading'', location = ''Chicago, IL'',
            miles_start = 1 / 1000000000, miles_end = 1 / 1000000000\<rparr>],
        stops =
          [\<lparr>stop_type = PICKUP, stop_duration_minutes = 60, stop_location = ''Chicago, IL'',
            stop_lat = Some (418781 / 10000), stop_lng = Some (- 876298 / 10000),
            mile_marker = Some (1 / 1000000000), reason = ''Loading cargo''\<rparr>,
           \<lparr>stop_type = DROPOFF, stop_duration_minutes = 60, stop_location = ''Chicago, IL'',
            stop_lat = Some (418781 / 10000), stop_lng = Some (- 876298 / 10000),
            mile_marker = Some (1 / 1000000000), reason = ''Unloading cargo''\<rparr>],
        total_driving_hours = 1 / 55000000000, total_on_duty_hours = 2 + 1 / 55000000000,
        total_off_duty_hours = 0, total_miles = 1 / 1000000000,
        trip_start_time = Some 0, trip_end_time = Some 7200000000\<rparr>)"
  by code_simp

section \<open>Cycle exhaustion\<close>

lemma drive_loop_diverges:
  assumes inv: "\<And>u. S u \<Longrightarrow> 0 < miles_to_drive u \<and> S (drive_iter n u)"
    and start: "S v"
  shows "drive_loop n v = None"
proof -
  have "\<forall>u y. drive_loop n u = Some y \<longrightarrow> \<not> S u"
  proof (rule drive_loop.fixp_induct [where P = "\<lambda>f. \<forall>u y. f n u = Some y \<longrightarrow> \<not> S u"])
    have adm: "option.admissible
            (\<lambda>f :: string \<times> loop_vars \<Rightarrow> loop_vars option.
               \<forall>x y. f x = Some y \<longrightarrow> \<not> (fst x = n \<and> S (snd x)))"
      by (rule option_admissible)
    show "option.admissible
            (\<lambda>f :: string \<times> loop_vars \<Rightarrow> loop_vars option.
               \<forall>u y. curry f n u = Some y \<longrightarrow> \<not> S u)"
      by (rule subst [where P = option.admissible, OF _ adm]) (rule ext, auto simp: curry_def)
  next
    show "\<forall>u (y :: loop_vars). None = Some y \<longrightarrow> \<not> S u"
      by simp
  next
    fix f :: "string \<Rightarrow> loop_vars \<Rightarrow> loop_vars option"
    assume IH: "\<forall>u y. f n u = Some y \<longrightarrow> \<not> S u"
    show "\<forall>u y. (if 0 < miles_to_drive u then f n (drive_iter n u) else Some u) = Some y
                 \<longrightarrow> \<not> S u"
    proof (intro allI impI notI)
      fix u y
      assume eq: "(if 0 < miles_to_drive u then f n (drive_iter n u) else Some u) = Some y"
        and Su: "S u"
      from inv[OF Su] have pos: "0 < miles_to_drive u" and next_S: "S (drive_iter n u)"
        by auto
      from eq pos have "f n (drive_iter n u) = Some y" by simp
      with IH next_S show False by blast
    qed
  qed
  with start show ?thesis
    by (cases "drive_loop n v") auto
qed

lemma segment_miles_cycle_exhausted:
  assumes "70 \<le> cycle_hours_used (hos_state u)"
  shows "segment_miles u \<le> 0"
proof -
  have "cycle_hours_remaining (hos_state u) = 0"
    using assms by (simp add: cycle_hours_remaining_def hos_consts)
  moreover have "0 \<le> driving_hours_remaining (hos_state u)"
    "0 \<le> duty_window_remaining (hos_state u)" "0 \<le> hours_until_break_required (hos_state u)"
    by (simp_all add: driving_hours_remaining_def duty_window_remaining_def
        hours_until_break_required_def)
  ultimately have "get_max_continuous_driving_hours (hos_state u) = 0"
    by (simp add: get_max_continuous_driving_hours_def)
  then show ?thesis
    by (simp add: segment_miles_def Let_def min_def)
qed

lemma cannot_drive_keeps_cycle:
  "cycle_hours_used (hos_state (cannot_drive u)) = cycle_hours_used (hos_state u) \<and>
   miles_to_drive (cannot_drive u) = miles_to_drive u"
  by (simp add: cannot_drive_def assign_stop_def add_rest_break_def add_off_duty_reset_def
      add_off_duty_time_def Let_def)

lemma cycle_exhausted_step:
  "cycle_exhausted u \<Longrightarrow> 0 < miles_to_drive u \<and> cycle_exhausted (drive_iter n u)"
  using segment_miles_cycle_exhausted[of u] cannot_drive_keeps_cycle[of u]
  by (simp add: cycle_exhausted_def drive_iter_def Let_def)

lemma drive_loop_cycle_exhausted:
  "cycle_exhausted v \<Longrightarrow> drive_loop n v = None"
  by (rule drive_loop_diverges[where S = cycle_exhausted]) (auto dest: cycle_exhausted_step)

lemma check_fuel_stop_cycle:
  "cycle_hours_used (hos_state v) \<le> cycle_hours_used (hos_state (check_fuel_stop g v)) \<and>
   miles_to_drive (check_fuel_stop g v) = miles_to_drive v"
  by (simp add: check_fuel_stop_def assign_stop_def add_fuel_stop_def add_on_duty_time_def
      start_new_shift_def Let_def hos_consts)

lemma check_rest_break_cycle:
  "cycle_hours_used (hos_state v) \<le> cycle_hours_used (hos_state (check_rest_break v)) \<and>
   miles_to_drive (check_rest_break v) = miles_to_drive v"
  by (simp add: check_rest_break_def assign_stop_def add_rest_break_def add_off_duty_time_def
      Let_def hos_consts)

lemma check_reset_cycle:
  "cycle_hours_used (hos_state v) \<le> cycle_hours_used (hos_state (check_reset v)) \<and>
   miles_to_drive (check_reset v) = miles_to_drive v"
  by (simp add: check_reset_def assign_stop_def add_off_duty_reset_def add_off_duty_time_def
      Let_def hos_consts)

lemma after_segment_checks_cycle:
  "cycle_hours_used (hos_state v)
     \<le> cycle_hours_used (hos_state (check_reset (check_rest_break (check_fuel_stop g v)))) \<and>
   miles_to_drive (check_reset (check_rest_break (check_fuel_stop g v))) = miles_to_drive v"
  using check_fuel_stop_cycle[of v g] check_rest_break_cycle[of "check_fuel_stop g v"]
    check_reset_cycle[of "check_rest_break (check_fuel_stop g v)"]
  by simp

lemma py_fmod_zero: "py_fmod 0 y = 0"
  by (simp add: py_fmod_def)

lemma first_segment_exhausts_cycle:
  assumes c: "62 \<le> c" "c < 70" and d: "(70 - c) * 55 < d"
    and v: "hos_state v = initial_hos_state c" "current_miles v = 0" "miles_to_drive v = d"
  shows "cycle_exhausted (drive_iter n v)"
proof -
  define g where "g = (70 - c) * 55"
  have g: "0 < g" "g < d" "g \<le> 440"
    using c d by (simp_all add: g_def)
  have "get_max_continuous_driving_hours (hos_state v) = 70 - c"
    using c v(1)
    by (simp add: get_max_continuous_driving_hours_def initial_hos_state_def start_new_shift_def
        driving_hours_remaining_def duty_window_remaining_def cycle_hours_remaining_def
        hours_until_break_required_def hos_consts)
  then have seg: "segment_miles v = g"
    using g v(2,3) by (simp add: segment_miles_def Let_def py_fmod_zero hos_consts g_def)
  define v1 where "v1 = drive_segment n g v"
  have gh: "g / AVG_SPEED_MPH = 70 - c"
    by (simp add: g_def hos_consts)
  have "cycle_hours_used (hos_state v1) = 70" "miles_to_drive v1 = d - g"
    using v(1,3)
    by (simp_all add: v1_def drive_segment_def Let_def add_driving_time_def
        initial_hos_state_def start_new_shift_def gh)
  with after_segment_checks_cycle[of v1 g] g
  have "cycle_exhausted (check_reset (check_rest_break (check_fuel_stop g v1)))"
    by (simp add: cycle_exhausted_def)
  then show ?thesis
    using seg g by (simp add: drive_iter_def Let_def v1_def)
qed

text \<open>
  Claim C1 asks for a run that fails with a "cycle limit prevents completion" condition.
  The code has no such condition: once the cycle budget is used up with miles left to
  drive, every pass through the loop inserts another stop and the call never returns.
  With at most 8 cycle hours left and a first leg that needs more driving than that, the
  result of \<open>create_trip_schedule\<close> is \<open>None\<close>, the run that never returns.
\<close>

theorem cycle_exhaustion_never_returns:
  assumes "2 \<le> length (legs route)"
    and "62 \<le> cycle_used"
    and "0 < distance_miles (legs route ! 0)"
    and "(70 - cycle_used) * 55 < distance_miles (legs route ! 0)"
  shows "create_trip_schedule route cl pl dl cycle_used st now = None"
proof -
  define d where "d = distance_miles (legs route ! 0)"
  have loop: "drive_loop n v = None"
    if v: "hos_state v = initial_hos_state cycle_used" "current_miles v = 0" "miles_to_drive v = d"
    for n v
  proof (cases "cycle_used < 70")
    case True
    have "cycle_exhausted (drive_iter n v)"
      using first_segment_exhausts_cycle[OF assms(2) True _ v] assms(4) by (simp add: d_def)
    then have "drive_loop n (drive_iter n v) = None"
      by (rule drive_loop_cycle_exhausted)
    moreover have "0 < miles_to_drive v"
      using v(3) assms(3) by (simp add: d_def)
    ultimately show ?thesis
      by (subst drive_loop.simps) simp
  next
    case False
    then have "cycle_exhausted v"
      using v assms(3)
      by (simp add: cycle_exhausted_def initial_hos_state_def start_new_shift_def d_def)
    then show ?thesis by (rule drive_loop_cycle_exhausted)
  qed
  show ?thesis
    using assms(1)
    by (simp add: create_trip_schedule_def Let_def process_leg_def loop initial_hos_state_def d_def)
qed

theorem cycle_exhaustion_never_returns_witness:
  "create_trip_schedule (two_leg_route 100 0) depot depot depot (139 / 2) (Some 0) 0 = None"
  by (rule cycle_exhaustion_never_returns) (simp_all add: two_leg_route_def)

section \<open>Fuel stops\<close>




lemma py_min3_le:
  "py_min a [b, c] \<le> a \<and> py_min a [b, c] \<le> b \<and> py_min a [b, c] \<le> c"
  by (simp add: min_le_iff_disj)


lemma segment_miles_le_miles_to_drive: "segment_miles v \<le> miles_to_drive v"
  by (simp add: segment_miles_def Let_def min_le_iff_disj)










section \<open>Invalid input\<close>

lemma drive_loop_nothing_to_drive:
  "miles_to_drive v \<le> 0 \<Longrightarrow> drive_loop n v = Some v"
  by (subst drive_loop.simps) simp

text \<open>
  Claim C7, as amended. A \<open>cycleUsedHours\<close> below 0 or above 70 is rejected by the
  request serializer with a 400 response, before the scheduler is called; a route with
  fewer than two legs makes the scheduler raise \<open>IndexError\<close> before any event or stop
  is emitted. A leg distance that is negative (or zero) is not rejected: the leg is
  scheduled as one with nothing to drive, and only its pickup or dropoff stop is appended.
\<close>

theorem invalid_input_handling:
  "(c < 0 \<or> 70 < c \<longrightarrow>
      plan_trip geocode_address reverse_geocode calculate_route now
        (request\<lparr>cycleUsedHours := Some c\<rparr>) = Some (Inr HTTP_400_BAD_REQUEST)) \<and>
   (length (legs route) < 2 \<longrightarrow>
      create_trip_schedule route cl pl dl cycle_used st now = Some (Inl IndexError)) \<and>
   (distance_miles (leg ld) \<le> 0 \<longrightarrow>
      process_leg pl dl ld v =
        Some (let v' = v\<lparr>miles_to_drive := distance_miles (leg ld), leg_miles_driven := 0\<rparr>
              in if end_type ld = PICKUP
                 then assign_stop v' (add_pickup_stop (schedule v) (current_time v) (hos_state v)
                                        (current_miles v) pl)
                 else assign_stop v' (add_dropoff_stop (schedule v) (current_time v) (hos_state v)
                                        (current_miles v) dl)))"
proof (intro conjI impI)
  assume "c < 0 \<or> 70 < c"
  then have "\<not> is_valid (request\<lparr>cycleUsedHours := Some c\<rparr>)"
    by (auto simp: is_valid_def cycle_field_is_valid_def)
  then show "plan_trip geocode_address reverse_geocode calculate_route now
        (request\<lparr>cycleUsedHours := Some c\<rparr>) = Some (Inr HTTP_400_BAD_REQUEST)"
    by (simp add: plan_trip_def)
next
  assume "length (legs route) < 2"
  then show "create_trip_schedule route cl pl dl cycle_used st now = Some (Inl IndexError)"
    by (simp add: create_trip_schedule_def Let_def)
next
  assume "distance_miles (leg ld) \<le> 0"
  then show "process_leg pl dl ld v =
        Some (let v' = v\<lparr>miles_to_drive := distance_miles (leg ld), leg_miles_driven := 0\<rparr>
              in if end_type ld = PICKUP
                 then assign_stop v' (add_pickup_stop (schedule v) (current_time v) (hos_state v)
                                        (current_miles v) pl)
                 else assign_stop v' (add_dropoff_stop (schedule v) (current_time v) (hos_state v)
                                        (current_miles v) dl))"
    by (simp add: process_leg_def drive_loop_nothing_to_drive Let_def)
qed

theorem invalid_input_handling_witness:
  "plan_trip no_geocoder coordinates_as_address (route_service (two_leg_route 50 50)) 0
     (request_at_depot (Some 71)) = Some (Inr HTTP_400_BAD_REQUEST) \<and>
   create_trip_schedule ((two_leg_route 50 50)\<lparr>legs := []\<rparr>) depot depot depot 0 (Some 0) 0
     = Some (Inl IndexError) \<and>
   map (stop_type) (stops (schedule (the (process_leg depot depot
       \<lparr>leg = legs (two_leg_route (- 5) 0) ! 0, start_location = depot, end_location = depot,
        end_type = PICKUP, end_name = ''Pickup''\<rparr> (at_mile_605 0)))))
     = [PICKUP]"
proof -
  have 1: "(71::real) < 0 \<or> (70::real) < 71" by simp
  have 2: "length (legs ((two_leg_route 50 50)\<lparr>legs := []\<rparr>)) < 2" by simp
  have 3: "distance_miles (leg \<lparr>leg = legs (two_leg_route (- 5) 0) ! 0, start_location = depot,
        end_location = depot, end_type = PICKUP, end_name = ''Pickup''\<rparr>) \<le> 0"
    by (simp add: two_leg_route_def)
  have r: "request_at_depot (Some 71) = (request_at_depot None)\<lparr>cycleUsedHours := Some 71\<rparr>"
    by (simp add: request_at_depot_def Let_def)
  note t = invalid_input_handling
    [of 71 no_geocoder coordinates_as_address "route_service (two_leg_route 50 50)" 0
        "request_at_depot None" "(two_leg_route 50 50)\<lparr>legs := []\<rparr>" depot depot depot 0 "Some 0"
        "\<lparr>leg = legs (two_leg_route (- 5) 0) ! 0, start_location = depot,
          end_location = depot, end_type = PICKUP, end_name = ''Pickup''\<rparr>" "at_mile_605 0"]
  from t 1 r have a: "plan_trip no_geocoder coordinates_as_address
      (route_service (two_leg_route 50 50)) 0 (request_at_depot (Some 71))
      = Some (Inr HTTP_400_BAD_REQUEST)"
    by simp
  from t 2 have b: "create_trip_schedule ((two_leg_route 50 50)\<lparr>legs := []\<rparr>) depot depot depot 0
      (Some 0) 0 = Some (Inl IndexError)"
    by blast
  from t 3 have c: "map (stop_type) (stops (schedule (the (process_leg depot depot
       \<lparr>leg = legs (two_leg_route (- 5) 0) ! 0, start_location = depot, end_location = depot,
        end_type = PICKUP, end_name = ''Pickup''\<rparr> (at_mile_605 0))))) = [PICKUP]"
    by (simp add: Let_def assign_stop_def add_pickup_stop_def at_mile_605_def)
  from a b c show ?thesis by blast
qed

text \<open>
  Claim C7 as stated fails for a negative leg distance: a request whose route has a first
  leg of -5 miles is answered with a schedule of two events and two stops.
\<close>

theorem negative_distance_not_rejected_counterexample:
  "plan_trip no_geocoder coordinates_as_address (route_service (two_leg_route (- 5) 0)) 0
     (request_at_depot (Some 0))
   = Some (Inr (HTTP_200_OK
       \<lparr>events =
          [\<lparr>start_time = 3600000000, end_time = 7200000000, status = ON_DUTY_NOT_DRIVING,
            note = ''Pickup - Loading'', location = ''Chicago, IL'',
            miles_start = 0, miles_end = 0\<rparr>,
           \<lparr>start_time = 7200000000, end_time = 10800000000, status = ON_DUTY_NOT_DRIVING,
            note = ''Dropoff - Unloading'', location = ''Chicago, IL'',
            miles_start = 0, miles_end = 0\<rparr>],
        stops =
          [\<lparr>stop_type = PICKUP, stop_duration_minutes = 60, stop_location = ''Chicago, IL'',
            stop_lat = Some (418781 / 10000), stop_lng = Some (- 876298 / 10000),
            mile_marker = Some 0, reason = ''Loading cargo''\<rparr>,
           \<lparr>stop_type = DROPOFF, stop_duration_minutes = 60, stop_location = ''Chicago, IL'',
            stop_lat = Some (418781 / 10000), stop_lng = Some (- 876298 / 10000),
            mile_marker = Some 0, reason = ''Unloading cargo''\<rparr>],
        total_driving_hours = 0, total_on_duty_hours = 2, total_off_duty_hours = 0,
        total_miles = 0, trip_start_time = Some 3600000000,
        trip_end_time = Some 10800000000\<rparr>))"
  by code_simp

section \<open>Day segmentation\<close>

lemma overnight_trip_run:
  "create_trip_schedule (two_leg_route 220 0) depot depot depot 0 (Some 79200000000) 0
     = Some (Inr overnight_schedule)"
  by code_simp

text \<open>
  Claim C2 describes sub-events of 2.0 hours each whose miles divide the parent's mileage
  in proportion to time. The code does neither. For the schedule of a 220-mile first leg
  started at 22:00, whose driving event runs from 22:00 to 02:00: the first sub-event ends
  at 23:59:59, one second short of midnight, both sub-events carry the parent's whole
  mileage 0 to 220, and the daily totals count 220 miles on each of the two days.
\<close>

theorem day_split_copies_miles_and_drops_a_second:
  "get_schedule_by_day overnight_schedule =
     [(0, [\<lparr>start_time = 79200000000, end_time = 86399000000, status = DRIVING,
            note = ''Driving to Pickup'', location = ''Mile 0 - 220'',
            miles_start = 0, miles_end = 220\<rparr>]),
      (1, [\<lparr>start_time = 86400000000, end_time = 93600000000, status = DRIVING,
            note = ''Driving to Pickup'', location = ''Mile 0 - 220'',
            miles_start = 0, miles_end = 220\<rparr>,
           \<lparr>start_time = 93600000000, end_time = 97200000000, status = ON_DUTY_NOT_DRIVING,
            note = ''Pickup - Loading'', location = ''Chicago, IL'',
            miles_start = 220, miles_end = 220\<rparr>,
           \<lparr>start_time = 97200000000, end_time = 100800000000, status = ON_DUTY_NOT_DRIVING,
            note = ''Dropoff - Unloading'', location = ''Chicago, IL'',
            miles_start = 220, miles_end = 220\<rparr>])] \<and>
   map (map duration_hours \<circ> snd) (get_schedule_by_day overnight_schedule)
     = [[7199 / 3600], [2, 1, 1]] \<and>
   map (totals_total_miles \<circ> calculate_daily_totals \<circ> snd)
       (get_schedule_by_day overnight_schedule)
     = [220, 220]"
  by code_simp

section \<open>The HOS limits along a schedule\<close>


lemma shift_inv_picked_up: "shift_inv False h m \<Longrightarrow> shift_inv True h m"
  unfolding shift_inv_def by blast

































end
